theory Spec2Isabelle
  imports Complex_Main "HOL-Library.Multiset" "HOL-Library.Char_ord" "HOL-Library.List_Lexorder"
begin

text \<open>
  The invoice analysis tool (\<^verbatim>\<open>app.py\<close>) reads an invoice table, a contact export and
  a client table, splits the invoices at a cutoff date, keeps the clients of the contact
  export that have no invoice before the cutoff, and sums the after-cutoff amounts per
  client.  This theory embeds lines 106-247 of the program, the pipeline behind the
  process button, as functions on tables, and proves what the specification says about
  them.  The widgets, the progress bar and the messages are not modelled.
\<close>

section \<open>Strings\<close>

text \<open>
  Header names and cell texts are sequences of Latin-1 code points (the tool's default
  file encoding is latin-1), one \<^typ>\<open>char\<close> per code point.  \<open>lower\<close> is Python's
  \<^verbatim>\<open>str.lower()\<close> on that range: the letters A-Z and the accented capitals
  0xC0-0xDE (without the multiplication sign 0xD7) move up by 32.
\<close>

definition lower_char :: "char \<Rightarrow> char" where
  "lower_char c =
     (let n = (of_char c :: nat)
      in if (65 \<le> n \<and> n \<le> 90) \<or> (192 \<le> n \<and> n \<le> 222 \<and> n \<noteq> 215)
         then char_of (n + 32) else c)"

definition lower :: "string \<Rightarrow> string" where
  "lower s = map lower_char s"

fun starts_with :: "string \<Rightarrow> string \<Rightarrow> bool" where
  "starts_with s [] = True"
| "starts_with [] (k # ks) = False"
| "starts_with (c # cs) (k # ks) = (c = k \<and> starts_with cs ks)"

text \<open>\<open>str_in k s\<close> is Python's \<^verbatim>\<open>k in s\<close> on strings.\<close>

fun str_in :: "string \<Rightarrow> string \<Rightarrow> bool" where
  "str_in k [] = (k = [])"
| "str_in k (c # cs) = (starts_with (c # cs) k \<or> str_in k cs)"

text \<open>\<open>str_int\<close> is Python's \<^verbatim>\<open>str\<close> on an integer.\<close>

definition digit_char :: "nat \<Rightarrow> char" where
  "digit_char n = char_of (48 + n)"

fun str_nat :: "nat \<Rightarrow> string" where
  "str_nat n = (if n < 10 then [digit_char n] else str_nat (n div 10) @ [digit_char (n mod 10)])"

declare str_nat.simps [simp del]

definition str_int :: "int \<Rightarrow> string" where
  "str_int i = (if i < 0 then CHR ''-'' # str_nat (nat (- i)) else str_nat (nat i))"

text \<open>\<open>join sep xs\<close> is Python's \<^verbatim>\<open>sep.join(xs)\<close>.\<close>

fun join :: "string \<Rightarrow> string list \<Rightarrow> string" where
  "join sep [] = []"
| "join sep [x] = x"
| "join sep (x # y # ys) = x @ sep @ join sep (y # ys)"

section \<open>Cells, rows and frames\<close>

text \<open>
  A cell of a table as \<^verbatim>\<open>pd.read_csv\<close> delivers it: an integer, a float, a text or
  the missing value NaN; after \<^verbatim>\<open>pd.to_datetime\<close> a cell is a timestamp (nanoseconds
  since the epoch) or NaT.  Floats are modelled by exact rationals: rounding of float64
  arithmetic is outside this development.
\<close>

datatype cell = IntC int | FloatC rat | StrC string | NaN | TsC int | NaT

type_synonym row = "string \<Rightarrow> cell"

record frame =
  columns :: "string list"
  rows :: "row list"

datatype error = KeyError string | IndexError | TypeError | ValueError

text \<open>
  The conversions of pandas and Python that the program calls but does not define are
  parameters of the model: parsing one date cell (\<^verbatim>\<open>errors='coerce'\<close>: \<open>None\<close> is NaT),
  parsing one amount text (\<open>None\<close> is NaN), and printing a float or a timestamp.  Each
  acts on one cell at a time; every theorem below holds for all values of the parameters.
\<close>

record lib =
  parse_datetime :: "cell \<Rightarrow> int option"
  parse_float :: "string \<Rightarrow> rat option"
  str_float :: "rat \<Rightarrow> string"
  str_ts :: "int \<Rightarrow> string"

text \<open>\<^verbatim>\<open>df[c]\<close>: the cells of column \<open>c\<close>, KeyError when the frame has no such column.\<close>

definition col :: "frame \<Rightarrow> string \<Rightarrow> error + cell list" where
  "col df c = (if c \<in> set (columns df) then Inr (map (\<lambda>r. r c) (rows df)) else Inl (KeyError c))"

text \<open>\<^verbatim>\<open>df[mask]\<close> with a row-wise mask.\<close>

definition where_rows :: "(row \<Rightarrow> bool) \<Rightarrow> frame \<Rightarrow> frame" where
  "where_rows p df = df\<lparr>rows := filter p (rows df)\<rparr>"

text \<open>\<^verbatim>\<open>df[c] = f(df[c])\<close> for a cell-wise \<open>f\<close>.\<close>

definition map_col :: "string \<Rightarrow> (cell \<Rightarrow> cell) \<Rightarrow> frame \<Rightarrow> frame" where
  "map_col c f df = df\<lparr>rows := map (\<lambda>r. r(c := f (r c))) (rows df)\<rparr>"

text \<open>\<^verbatim>\<open>df.rename(columns={old: new}, inplace=True)\<close>.\<close>

definition rename_col :: "string \<Rightarrow> string \<Rightarrow> frame \<Rightarrow> frame" where
  "rename_col old new df =
     \<lparr>columns = map (\<lambda>c. if c = old then new else c) (columns df),
      rows = map (\<lambda>r. r(new := r old)) (rows df)\<rparr>"

text \<open>
  \<^verbatim>\<open>a.isin(b)\<close> on raw values: numbers compare by value whatever their dtype, texts by
  their characters, a missing value matches a missing value, and a number never equals
  a text.
\<close>

fun isin_eq :: "cell \<Rightarrow> cell \<Rightarrow> bool" where
  "isin_eq (IntC i) (IntC j) = (i = j)"
| "isin_eq (IntC i) (FloatC q) = (of_int i = q)"
| "isin_eq (FloatC q) (IntC i) = (q = of_int i)"
| "isin_eq (FloatC p) (FloatC q) = (p = q)"
| "isin_eq (StrC s) (StrC t) = (s = t)"
| "isin_eq NaN NaN = True"
| "isin_eq (TsC s) (TsC t) = (s = t)"
| "isin_eq NaT NaT = True"
| "isin_eq _ _ = False"

definition isin :: "cell \<Rightarrow> cell list \<Rightarrow> bool" where
  "isin x ys = (\<exists>y \<in> set ys. isin_eq x y)"

text \<open>\<^verbatim>\<open>series.astype(str)\<close> on one cell.\<close>

fun astype_str :: "lib \<Rightarrow> cell \<Rightarrow> string" where
  "astype_str L (IntC i) = str_int i"
| "astype_str L (FloatC q) = str_float L q"
| "astype_str L (StrC s) = s"
| "astype_str L NaN = ''nan''"
| "astype_str L (TsC t) = str_ts L t"
| "astype_str L NaT = ''NaT''"

section \<open>Column resolution\<close>

definition Numero_du_client :: string where
  "Numero_du_client = ''Num'' @ [CHR 0xE9] @ ''ro du client''"

definition Montant_TTC :: string where
  "Montant_TTC = ''Montant TTC de la ligne facture ou avoir''"

definition Nom_du_Produit :: string where
  "Nom_du_Produit = ''Nom du Produit''"

text \<open>Lines 112-116: the headers containing \<^verbatim>\<open>date\<close>, in column order.\<close>

definition date_columns :: "string list \<Rightarrow> string list" where
  "date_columns cols = filter (\<lambda>c. str_in ''date'' (lower c)) cols"

text \<open>Lines 194-199: the amount column; the canonical name stays when nothing matches.\<close>

definition amount_cols :: "string list \<Rightarrow> string list" where
  "amount_cols cols = filter (\<lambda>c. str_in ''montant'' (lower c) \<or> str_in ''amount'' (lower c)) cols"

definition amount_column :: "string list \<Rightarrow> string" where
  "amount_column cols =
     (if Montant_TTC \<notin> set cols
      then (case amount_cols cols of [] \<Rightarrow> Montant_TTC | c # _ \<Rightarrow> c)
      else Montant_TTC)"

text \<open>Lines 219-224: the product column, in the same way.\<close>

definition product_cols :: "string list \<Rightarrow> string list" where
  "product_cols cols = filter (\<lambda>c. str_in ''produit'' (lower c) \<or> str_in ''product'' (lower c)) cols"

definition product_column :: "string list \<Rightarrow> string" where
  "product_column cols =
     (if Nom_du_Produit \<notin> set cols
      then (case product_cols cols of [] \<Rightarrow> Nom_du_Produit | c # _ \<Rightarrow> c)
      else Nom_du_Produit)"

section \<open>The pipeline\<close>

text \<open>
  What one press of the process button reads: the three tables as \<^verbatim>\<open>pd.read_csv\<close>
  delivered them, the cutoff as \<^verbatim>\<open>pd.Timestamp(cutoff_date)\<close>, and the text typed into
  the date-column box (empty when nothing was typed).
\<close>

record inputs =
  all_invoices :: frame
  boost :: frame
  clients :: frame
  cutoff_date :: int
  date_col_name :: string

definition bind_err :: "error + 'a \<Rightarrow> ('a \<Rightarrow> error + 'b) \<Rightarrow> error + 'b" where
  "bind_err m f = (case m of Inl e \<Rightarrow> Inl e | Inr x \<Rightarrow> f x)"

subsection \<open>Lines 111-139: splitting the invoices\<close>

definition to_datetime :: "lib \<Rightarrow> cell \<Rightarrow> cell" where
  "to_datetime L c = (case parse_datetime L c of Some t \<Rightarrow> TsC t | None \<Rightarrow> NaT)"

text \<open>A comparison with NaT is false on both sides.\<close>

fun ts_lt :: "cell \<Rightarrow> int \<Rightarrow> bool" where
  "ts_lt (TsC t) k = (t < k)"
| "ts_lt _ k = False"

fun ts_ge :: "cell \<Rightarrow> int \<Rightarrow> bool" where
  "ts_ge (TsC t) k = (k \<le> t)"
| "ts_ge _ k = False"

definition split_by_date :: "lib \<Rightarrow> string \<Rightarrow> int \<Rightarrow> frame \<Rightarrow> frame \<times> frame" where
  "split_by_date L c cutoff df =
     (let df' = map_col c (to_datetime L) df
      in (where_rows (\<lambda>r. ts_lt (r c) cutoff) df', where_rows (\<lambda>r. ts_ge (r c) cutoff) df'))"

definition split_by_index :: "frame \<Rightarrow> frame \<times> frame" where
  "split_by_index df =
     (let split_point = length (rows df) div 2
      in (df\<lparr>rows := take split_point (rows df)\<rparr>, df\<lparr>rows := drop split_point (rows df)\<rparr>))"

definition partition_invoices :: "lib \<Rightarrow> inputs \<Rightarrow> frame \<times> frame" where
  "partition_invoices L inp =
     (let df = all_invoices inp
      in case date_columns (columns df) of
           date_col # _ \<Rightarrow> split_by_date L date_col (cutoff_date inp) df
         | [] \<Rightarrow>
             if date_col_name inp \<noteq> [] \<and> date_col_name inp \<in> set (columns df)
             then split_by_date L (date_col_name inp) (cutoff_date inp) df
             else split_by_index df)"

subsection \<open>Lines 143-190: the retained clients\<close>

definition columns_to_keep :: "string list \<Rightarrow> string list" where
  "columns_to_keep cols =
     (if filter (\<lambda>c. c \<notin> set cols) [''Email'', ''Prenom_Nom''] \<noteq> []
      then (case (filter (\<lambda>c. str_in ''email'' (lower c)) cols,
                  filter (\<lambda>c. str_in ''nom'' (lower c) \<or> str_in ''name'' (lower c)) cols) of
              (e # _, n # _) \<Rightarrow> [e, n]
            | _ \<Rightarrow> [''Email'', ''Prenom_Nom''])
      else [''Email'', ''Prenom_Nom''])"

text \<open>\<^verbatim>\<open>df[columns_to_keep]\<close> and then \<^verbatim>\<open>df.iloc[:, 0]\<close>.\<close>

definition select_cols :: "string list \<Rightarrow> frame \<Rightarrow> error + frame" where
  "select_cols ks df =
     (case filter (\<lambda>k. k \<notin> set (columns df)) ks of
        [] \<Rightarrow> Inr (df\<lparr>columns := ks\<rparr>)
      | k # _ \<Rightarrow> Inl (KeyError k))"

definition first_col :: "frame \<Rightarrow> error + cell list" where
  "first_col df = (case columns df of [] \<Rightarrow> Inl IndexError | c # _ \<Rightarrow> Inr (map (\<lambda>r. r c) (rows df)))"

definition boost_emails :: "frame \<Rightarrow> error + cell list" where
  "boost_emails df = bind_err (select_cols (columns_to_keep (columns df)) df) first_col"

definition resolve_email :: "frame \<Rightarrow> frame" where
  "resolve_email cl =
     (if ''Email'' \<notin> set (columns cl)
      then (case filter (\<lambda>c. str_in ''email'' (lower c)) (columns cl) of
              [] \<Rightarrow> cl
            | c # _ \<Rightarrow> rename_col c ''Email'' cl)
      else cl)"

definition filter_isin :: "string \<Rightarrow> cell list \<Rightarrow> frame \<Rightarrow> error + frame" where
  "filter_isin c vals df =
     (if c \<in> set (columns df) then Inr (where_rows (\<lambda>r. isin (r c) vals) df) else Inl (KeyError c))"

definition client_num_cols :: "string list \<Rightarrow> string list" where
  "client_num_cols cols =
     filter (\<lambda>c. str_in ''client'' (lower c) \<and> (str_in ''num'' (lower c) \<or> str_in ''id'' (lower c))) cols"

definition resolve_client_id :: "frame \<Rightarrow> frame" where
  "resolve_client_id cl =
     (if Numero_du_client \<notin> set (columns cl)
      then (case client_num_cols (columns cl) of
              [] \<Rightarrow> cl
            | c # _ \<Rightarrow> rename_col c Numero_du_client cl)
      else cl)"

text \<open>
  Lines 186 and 189: the clients found in the before-cutoff invoices, then the clients
  that are not among those.  Both tests are \<^verbatim>\<open>isin\<close> on the raw cells.
\<close>

definition reconcile :: "frame \<Rightarrow> frame \<Rightarrow> error + frame" where
  "reconcile cl resa =
     bind_err (col cl Numero_du_client) (\<lambda>_.
     bind_err (col resa Numero_du_client) (\<lambda>resa_ids.
       let clients_in_resa = where_rows (\<lambda>r. isin (r Numero_du_client) resa_ids) cl
       in Inr (where_rows
                 (\<lambda>r. \<not> isin (r Numero_du_client)
                           (map (\<lambda>r. r Numero_du_client) (rows clients_in_resa))) cl)))"

definition retained_clients :: "inputs \<Rightarrow> frame \<Rightarrow> error + frame" where
  "retained_clients inp resa =
     bind_err (boost_emails (boost inp)) (\<lambda>emails.
     bind_err (filter_isin ''Email'' emails (resolve_email (clients inp))) (\<lambda>cl.
       reconcile (resolve_client_id cl) resa))"

subsection \<open>Lines 193-216: amounts and client numbers\<close>

text \<open>\<^verbatim>\<open>x != 0\<close> on a raw cell: only a number can equal zero.\<close>

fun ne_zero :: "cell \<Rightarrow> bool" where
  "ne_zero (IntC i) = (i \<noteq> 0)"
| "ne_zero (FloatC q) = (q \<noteq> 0)"
| "ne_zero _ = True"

definition zero_filter :: "string \<Rightarrow> frame \<Rightarrow> error + frame" where
  "zero_filter amount_col df =
     (if amount_col \<in> set (columns df)
      then Inr (where_rows (\<lambda>r. ne_zero (r amount_col)) df)
      else Inl (KeyError amount_col))"

definition stringify_ids :: "lib \<Rightarrow> frame \<Rightarrow> frame" where
  "stringify_ids L df = map_col Numero_du_client (\<lambda>c. StrC (astype_str L c)) df"

text \<open>\<^verbatim>\<open>.replace({',': '.'}, regex=True)\<close> rewrites texts only.\<close>

fun replace_comma :: "cell \<Rightarrow> cell" where
  "replace_comma (StrC s) = StrC (map (\<lambda>c. if c = CHR '','' then CHR ''.'' else c) s)"
| "replace_comma c = c"

text \<open>
  \<^verbatim>\<open>pd.to_numeric(errors='coerce')\<close>: numbers stay, a text is parsed or becomes NaN, a
  timestamp becomes its nanosecond count (NaT the smallest 64-bit integer).
\<close>

fun to_numeric :: "lib \<Rightarrow> cell \<Rightarrow> cell" where
  "to_numeric L (StrC s) = (case parse_float L s of Some q \<Rightarrow> FloatC q | None \<Rightarrow> NaN)"
| "to_numeric L (TsC t) = IntC t"
| "to_numeric L NaT = IntC (- 9223372036854775808)"
| "to_numeric L c = c"

definition normalize_amounts :: "lib \<Rightarrow> string \<Rightarrow> frame \<Rightarrow> frame" where
  "normalize_amounts L amount_col df = map_col amount_col (\<lambda>c. to_numeric L (replace_comma c)) df"

subsection \<open>Lines 226-241: grouping and the join with the client table\<close>

record result_row =
  rid :: string
  total :: rat
  products :: string
  email :: "cell option"

text \<open>The text of a cell of the key column, which holds texts only after line 205.\<close>

fun text_of :: "cell \<Rightarrow> string" where
  "text_of (StrC s) = s"
| "text_of _ = []"

text \<open>\<^verbatim>\<open>Series.unique()\<close>: the distinct values in the order of their first appearance.\<close>

fun unique_from :: "'a list \<Rightarrow> 'a list \<Rightarrow> 'a list" where
  "unique_from seen [] = rev seen"
| "unique_from seen (x # xs) = (if x \<in> set seen then unique_from seen xs else unique_from (x # seen) xs)"

definition unique :: "'a list \<Rightarrow> 'a list" where
  "unique xs = unique_from [] xs"

text \<open>The \<^verbatim>\<open>'sum'\<close> aggregation skips NaN.\<close>

fun amount_value :: "cell \<Rightarrow> rat" where
  "amount_value (IntC i) = of_int i"
| "amount_value (FloatC q) = q"
| "amount_value _ = 0"

fun is_text :: "cell \<Rightarrow> bool" where
  "is_text (StrC s) = True"
| "is_text _ = False"

text \<open>\<^verbatim>\<open>', '.join(x.unique())\<close> raises TypeError on an item that is not a text.\<close>

definition join_products :: "cell list \<Rightarrow> error + string" where
  "join_products cs =
     (if list_all is_text (unique cs) then Inr (join '', '' (map text_of (unique cs))) else Inl TypeError)"

text \<open>\<^verbatim>\<open>groupby\<close> on the client number: one group per distinct key, in sorted key order.\<close>

definition group_keys :: "frame \<Rightarrow> string list" where
  "group_keys df = sort (remdups (map (\<lambda>r. text_of (r Numero_du_client)) (rows df)))"

definition group_rows :: "frame \<Rightarrow> string \<Rightarrow> row list" where
  "group_rows df k = filter (\<lambda>r. text_of (r Numero_du_client) = k) (rows df)"

fun collect :: "(error + 'a) list \<Rightarrow> error + 'a list" where
  "collect [] = Inr []"
| "collect (x # xs) =
     (case x of Inl e \<Rightarrow> Inl e
      | Inr v \<Rightarrow> (case collect xs of Inl e \<Rightarrow> Inl e | Inr vs \<Rightarrow> Inr (v # vs)))"

definition agg_group :: "string \<Rightarrow> string \<Rightarrow> frame \<Rightarrow> string \<Rightarrow> error + result_row" where
  "agg_group amount_col product_col df k =
     bind_err (join_products (map (\<lambda>r. r product_col) (group_rows df k))) (\<lambda>ps.
       Inr \<lparr>rid = k,
            total = sum_list (map (\<lambda>r. amount_value (r amount_col)) (group_rows df k)),
            products = ps,
            email = None\<rparr>)"

text \<open>
  Lines 228-233.  The aggregation dictionary is keyed by column name: a key that is not a
  column raises KeyError; when the amount and the product column are the same column the
  dictionary has one entry, the lambda, and naming three columns afterwards raises
  ValueError.
\<close>

definition aggregate :: "string \<Rightarrow> string \<Rightarrow> frame \<Rightarrow> error + result_row list" where
  "aggregate amount_col product_col df =
     (if amount_col \<notin> set (columns df) then Inl (KeyError amount_col)
      else if product_col \<notin> set (columns df) then Inl (KeyError product_col)
      else bind_err (collect (map (agg_group amount_col product_col df) (group_keys df))) (\<lambda>ts.
             if amount_col = product_col then Inl ValueError else Inr ts))"

text \<open>Lines 236-241: the left join on the client number.\<close>

definition merge_row :: "frame \<Rightarrow> result_row \<Rightarrow> result_row list" where
  "merge_row cl t =
     (case filter (\<lambda>c. text_of (c Numero_du_client) = rid t) (rows cl) of
        [] \<Rightarrow> [t\<lparr>email := Some NaN\<rparr>]
      | ms \<Rightarrow> map (\<lambda>c. t\<lparr>email := Some (c ''Email'')\<rparr>) ms)"

definition merge_email :: "frame \<Rightarrow> result_row list \<Rightarrow> result_row list" where
  "merge_email cl ts = (if ''Email'' \<in> set (columns cl) then concat (map (merge_row cl) ts) else ts)"

subsection \<open>Lines 106-247: the whole run\<close>

definition kept_invoices :: "lib \<Rightarrow> frame \<Rightarrow> frame \<Rightarrow> error + frame" where
  "kept_invoices L retained invoices =
     bind_err (zero_filter (amount_column (columns invoices)) invoices) (\<lambda>inv.
       Inr (normalize_amounts L (amount_column (columns invoices))
              (where_rows
                 (\<lambda>r. isin (r Numero_du_client)
                          (map (\<lambda>c. c Numero_du_client) (rows (stringify_ids L retained))))
                 (stringify_ids L inv))))"

definition pipeline :: "lib \<Rightarrow> inputs \<Rightarrow> error + result_row list" where
  "pipeline L inp =
     (let (resa, invoices) = partition_invoices L inp
      in bind_err (retained_clients inp resa) (\<lambda>retained.
         bind_err (kept_invoices L retained invoices) (\<lambda>inv.
         bind_err (aggregate (amount_column (columns invoices)) (product_column (columns inv)) inv) (\<lambda>ts.
           Inr (merge_email (stringify_ids L retained) ts)))))"

section \<open>A concrete library for running the model\<close>

text \<open>
  To run the pipeline on a table the parameters need values.  \<open>std_lib\<close> agrees with
  pandas and Python on the cells used in the runs below: ISO dates \<^verbatim>\<open>YYYY-MM-DD\<close>,
  plain decimal numbers, and floats with a short decimal expansion.  Every other text is
  not a date and not a number for it.
\<close>

definition digit_val :: "char \<Rightarrow> nat option" where
  "digit_val c = (let n = (of_char c :: nat) in if 48 \<le> n \<and> n \<le> 57 then Some (n - 48) else None)"

fun digits_from :: "nat \<Rightarrow> string \<Rightarrow> nat option" where
  "digits_from acc [] = Some acc"
| "digits_from acc (c # cs) =
     (case digit_val c of None \<Rightarrow> None | Some d \<Rightarrow> digits_from (10 * acc + d) cs)"

definition std_parse_float :: "string \<Rightarrow> rat option" where
  "std_parse_float s =
     (let neg = (case s of c # _ \<Rightarrow> c = CHR ''-'' | [] \<Rightarrow> False);
          body = (case s of c # cs \<Rightarrow> if c = CHR ''-'' \<or> c = CHR ''+'' then cs else s | [] \<Rightarrow> s);
          ip = takeWhile (\<lambda>c. c \<noteq> CHR ''.'') body;
          fp = drop 1 (dropWhile (\<lambda>c. c \<noteq> CHR ''.'') body)
      in if ip = [] \<and> fp = [] then None
         else (case (digits_from 0 ip, digits_from 0 fp) of
                 (Some a, Some b) \<Rightarrow>
                   Some ((if neg then - 1 else 1) * (of_nat a + of_nat b / 10 ^ length fp))
               | _ \<Rightarrow> None))"

definition is_leap :: "nat \<Rightarrow> bool" where
  "is_leap y = (y mod 4 = 0 \<and> (y mod 100 \<noteq> 0 \<or> y mod 400 = 0))"

definition days_in_month :: "nat \<Rightarrow> nat \<Rightarrow> nat" where
  "days_in_month y m =
     (if m = 2 then (if is_leap y then 29 else 28)
      else if m = 4 \<or> m = 6 \<or> m = 9 \<or> m = 11 then 30 else 31)"

text \<open>Days since 1970-01-01 of a civil date, and midnight of that day in nanoseconds.\<close>

definition days_from_civil :: "int \<Rightarrow> int \<Rightarrow> int \<Rightarrow> int" where
  "days_from_civil y m d =
     (let y' = (if m \<le> 2 then y - 1 else y);
          era = y' div 400;
          yoe = y' - era * 400;
          doy = (153 * (if m > 2 then m - 3 else m + 9) + 2) div 5 + d - 1;
          doe = yoe * 365 + yoe div 4 - yoe div 100 + doy
      in era * 146097 + doe - 719468)"

definition timestamp_of_date :: "int \<Rightarrow> int \<Rightarrow> int \<Rightarrow> int" where
  "timestamp_of_date y m d = days_from_civil y m d * 86400000000000"

definition parse_iso_date :: "string \<Rightarrow> int option" where
  "parse_iso_date s =
     (if length s = 10 \<and> s ! 4 = CHR ''-'' \<and> s ! 7 = CHR ''-''
      then (case (digits_from 0 (take 4 s), digits_from 0 (take 2 (drop 5 s)), digits_from 0 (drop 8 s)) of
              (Some y, Some m, Some d) \<Rightarrow>
                if 1 \<le> y \<and> 1 \<le> m \<and> m \<le> 12 \<and> 1 \<le> d \<and> d \<le> days_in_month y m
                then Some (timestamp_of_date (int y) (int m) (int d)) else None
            | _ \<Rightarrow> None)
      else None)"

fun std_parse_datetime :: "cell \<Rightarrow> int option" where
  "std_parse_datetime (StrC s) = parse_iso_date s"
| "std_parse_datetime (IntC i) = Some i"
| "std_parse_datetime (TsC t) = Some t"
| "std_parse_datetime _ = None"

fun frac_digits :: "nat \<Rightarrow> rat \<Rightarrow> string" where
  "frac_digits 0 q = []"
| "frac_digits (Suc n) q =
     (if q = 0 then []
      else digit_char (nat \<lfloor>q * 10\<rfloor>) # frac_digits n (q * 10 - of_int \<lfloor>q * 10\<rfloor>))"

definition std_str_float :: "rat \<Rightarrow> string" where
  "std_str_float q =
     (let a = \<bar>q\<bar>; fr = a - of_int \<lfloor>a\<rfloor>
      in (if q < 0 then ''-'' else []) @ str_int \<lfloor>a\<rfloor> @ ''.'' @
         (if fr = 0 then ''0'' else frac_digits 16 fr))"

definition pad2 :: "int \<Rightarrow> string" where
  "pad2 n = (if n < 10 then ''0'' else []) @ str_int n"

text \<open>The civil date and the time of day of a timestamp, as \<^verbatim>\<open>str\<close> prints whole seconds.\<close>

definition std_str_ts :: "int \<Rightarrow> string" where
  "std_str_ts t =
     (let days = t div 86400000000000;
          secs = (t mod 86400000000000) div 1000000000;
          z = days + 719468;
          era = z div 146097;
          doe = z - era * 146097;
          yoe = (doe - doe div 1460 + doe div 36524 - doe div 146096) div 365;
          doy = doe - (365 * yoe + yoe div 4 - yoe div 100);
          mp = (5 * doy + 2) div 153;
          d = doy - (153 * mp + 2) div 5 + 1;
          m = (if mp < 10 then mp + 3 else mp - 9);
          y = yoe + era * 400 + (if m \<le> 2 then 1 else 0)
      in str_int y @ ''-'' @ pad2 m @ ''-'' @ pad2 d @ '' '' @
         pad2 (secs div 3600) @ '':'' @ pad2 ((secs mod 3600) div 60) @ '':'' @ pad2 (secs mod 60))"

definition std_lib :: lib where
  "std_lib = \<lparr>parse_datetime = std_parse_datetime, parse_float = std_parse_float,
              str_float = std_str_float, str_ts = std_str_ts\<rparr>"

text \<open>A row from its cells, column by column; a column that is not listed is missing.\<close>

definition mk_row :: "(string \<times> cell) list \<Rightarrow> row" where
  "mk_row kvs = (\<lambda>c. case map_of kvs c of Some v \<Rightarrow> v | None \<Rightarrow> NaN)"

section \<open>Notions for stating the properties\<close>


text \<open>
  The after-cutoff rows that reach the aggregation: their raw amount is not the number
  zero and their client number, as a text, is the client number of a retained client.
\<close>

definition surviving_rows :: "lib \<Rightarrow> frame \<Rightarrow> frame \<Rightarrow> row list" where
  "surviving_rows L retained invoices =
     filter (\<lambda>r. ne_zero (r (amount_column (columns invoices)))
                \<and> (\<exists>c \<in> set (rows retained).
                      astype_str L (r Numero_du_client) = astype_str L (c Numero_du_client)))
       (rows invoices)"

definition prepared :: "lib \<Rightarrow> string \<Rightarrow> row \<Rightarrow> row" where
  "prepared L amount_col r =
     (r(Numero_du_client := StrC (astype_str L (r Numero_du_client))))
        (amount_col := to_numeric L (replace_comma (r amount_col)))"

definition client_rows :: "lib \<Rightarrow> string \<Rightarrow> row list \<Rightarrow> row list" where
  "client_rows L k xs = filter (\<lambda>r. astype_str L (r Numero_du_client) = k) xs"

definition normalized_amount :: "lib \<Rightarrow> string \<Rightarrow> row \<Rightarrow> rat" where
  "normalized_amount L amount_col r = amount_value (to_numeric L (replace_comma (r amount_col)))"

definition group_result :: "lib \<Rightarrow> string \<Rightarrow> string \<Rightarrow> row list \<Rightarrow> string \<Rightarrow> result_row" where
  "group_result L amount_col product_col xs k =
     \<lparr>rid = k,
      total = sum_list (map (normalized_amount L amount_col) (client_rows L k xs)),
      products = join '', '' (map text_of (unique (map (\<lambda>r. r product_col) (client_rows L k xs)))),
      email = None\<rparr>"

definition result_keys :: "lib \<Rightarrow> row list \<Rightarrow> string list" where
  "result_keys L xs = sort (remdups (map (\<lambda>r. astype_str L (r Numero_du_client)) xs))"

definition run_result :: "lib \<Rightarrow> inputs \<Rightarrow> frame \<Rightarrow> result_row list" where
  "run_result L inp retained =
     (let cols = columns (all_invoices inp);
          xs = surviving_rows L retained (snd (partition_invoices L inp))
      in merge_email (stringify_ids L retained)
           (map (group_result L (amount_column cols) (product_column cols) xs) (result_keys L xs)))"




section \<open>Example tables\<close>





definition ex_inv :: frame where
  "ex_inv = \<lparr>columns = [''Date'', Numero_du_client],
     rows = [mk_row [(''Date'', StrC ''2024-06-30''), (Numero_du_client, IntC 1)],
             mk_row [(''Date'', StrC ''2024-07-01''), (Numero_du_client, IntC 2)],
             mk_row [(''Date'', StrC ''soon''), (Numero_du_client, IntC 3)]]\<rparr>"

definition boost_ab :: frame where
  "boost_ab = \<lparr>columns = [''Email'', ''Prenom_Nom''],
     rows = [mk_row [(''Email'', StrC ''a@x.fr''), (''Prenom_Nom'', StrC ''Ana A'')],
             mk_row [(''Email'', StrC ''b@x.fr''), (''Prenom_Nom'', StrC ''Bo B'')]]\<rparr>"

definition inv_row :: "string \<Rightarrow> cell \<Rightarrow> cell \<Rightarrow> string \<Rightarrow> row" where
  "inv_row d c a p = mk_row [(''Date'', StrC d), (Numero_du_client, c), (Montant_TTC, a), (Nom_du_Produit, StrC p)]"

definition inv_cols :: "string list" where
  "inv_cols = [''Date'', Numero_du_client, Montant_TTC, Nom_du_Produit]"

definition client_row :: "string \<Rightarrow> cell \<Rightarrow> row" where
  "client_row e c = mk_row [(''Email'', StrC e), (Numero_du_client, c)]"

definition client_cols :: "string list" where
  "client_cols = [''Email'', Numero_du_client]"

definition run_on :: "string list \<Rightarrow> row list \<Rightarrow> row list \<Rightarrow> inputs" where
  "run_on cols invs cls =
     \<lparr>all_invoices = \<lparr>columns = cols, rows = invs\<rparr>, boost = boost_ab,
      clients = \<lparr>columns = client_cols, rows = cls\<rparr>,
      cutoff_date = timestamp_of_date 2024 7 1, date_col_name = []\<rparr>"

definition zero_row_input :: inputs where
  "zero_row_input = run_on inv_cols
     [inv_row ''2024-08-01'' (IntC 2) (StrC ''0,00'') ''A'',
      inv_row ''2024-08-02'' (IntC 2) (StrC ''15,00'') ''B'']
     [client_row ''a@x.fr'' (IntC 2)]"

definition zero_num_input :: inputs where
  "zero_num_input = run_on inv_cols
     [inv_row ''2024-08-01'' (IntC 2) (IntC 0) ''A'',
      inv_row ''2024-08-02'' (IntC 2) (IntC 15) ''B'']
     [client_row ''a@x.fr'' (IntC 2)]"

definition mixed_id_input :: inputs where
  "mixed_id_input = run_on inv_cols
     [inv_row ''2024-06-01'' (StrC ''1023'') (StrC ''10,50'') ''A'',
      inv_row ''2024-07-05'' (StrC ''1023'') (StrC ''20,00'') ''B'',
      inv_row ''2024-07-06'' (StrC ''A12'') (StrC ''5,00'') ''C'']
     [client_row ''a@x.fr'' (IntC 1023)]"

definition no_product_input :: inputs where
  "no_product_input = run_on [''Date'', Numero_du_client, Montant_TTC]
     [mk_row [(''Date'', StrC ''2024-08-02''), (Numero_du_client, IntC 2), (Montant_TTC, StrC ''15,00'')]]
     [client_row ''a@x.fr'' (IntC 2)]"

definition float_id_input :: inputs where
  "float_id_input = run_on inv_cols
     [inv_row ''2024-08-02'' (IntC 1023) (StrC ''15,00'') ''B'']
     [client_row ''a@x.fr'' (FloatC 1023), client_row ''b@x.fr'' NaN]"

definition padded_id_input :: inputs where
  "padded_id_input = run_on inv_cols
     [inv_row ''2024-08-02'' (StrC ''1023 '') (StrC ''15,00'') ''B'',
      inv_row ''2024-08-03'' (StrC ''A12'') (StrC ''5,00'') ''C'']
     [client_row ''a@x.fr'' (StrC ''1023''), client_row ''b@x.fr'' (StrC ''A12'')]"





definition unparsable_input :: inputs where
  "unparsable_input = run_on inv_cols
     [inv_row ''2024-08-01'' (IntC 2) (StrC ''abc'') ''A'',
      inv_row ''2024-08-02'' (IntC 2) (StrC ''15,00'') ''B'',
      inv_row ''2024-08-03'' (IntC 2) (StrC ''1,50'') ''A'',
      inv_row ''2024-08-03'' (IntC 10) (StrC ''7'') ''C'',
      inv_row ''2024-08-03'' (IntC 7) (StrC ''7'') ''C'']
     [client_row ''a@x.fr'' (IntC 2), client_row ''b@x.fr'' (IntC 10)]"

definition unparsable_result :: "result_row list" where
  "unparsable_result =
     [\<lparr>rid = ''10'', total = 7, products = ''C'', email = Some (StrC ''b@x.fr'')\<rparr>,
      \<lparr>rid = ''2'', total = 33 / 2, products = ''A, B'', email = Some (StrC ''a@x.fr'')\<rparr>]"

definition unparsable_row :: row where
  "unparsable_row = hd (rows (snd (partition_invoices std_lib unparsable_input)))"

definition all_zero_result :: "result_row list" where
  "all_zero_result =
     [\<lparr>rid = ''10'', total = 0, products = ''C'', email = Some (StrC ''b@x.fr'')\<rparr>,
      \<lparr>rid = ''2'', total = 0, products = ''A, B'', email = Some (StrC ''a@x.fr'')\<rparr>]"

definition float_both_input :: inputs where
  "float_both_input = run_on inv_cols
     [inv_row ''2024-08-02'' (FloatC 1023) (StrC ''15,00'') ''B'',
      inv_row ''2024-08-03'' NaN (StrC ''1,00'') ''C'']
     [client_row ''a@x.fr'' (FloatC 1023), client_row ''c@x.fr'' NaN]"

definition one_client :: frame where
  "one_client = \<lparr>columns = client_cols, rows = [client_row ''a@x.fr'' (IntC 1023)]\<rparr>"

definition text_id_invoices :: frame where
  "text_id_invoices = \<lparr>columns = inv_cols,
     rows = [inv_row ''2024-08-02'' (StrC ''1023'') (StrC ''15,00'') ''B'',
             inv_row ''2024-08-03'' (StrC ''1023 '') (StrC ''1,00'') ''C'',
             inv_row ''2024-08-04'' (StrC ''A12'') (StrC ''2,00'') ''C'']\<rparr>"


section \<open>Column resolution picks the first match\<close>







section \<open>Splitting the invoices at the cutoff\<close>

lemma three_way_count:
  "length (filter (\<lambda>r. \<exists>t. f r = Some t \<and> t < k) xs)
   + length (filter (\<lambda>r. \<exists>t. f r = Some t \<and> k \<le> t) xs)
   + length (filter (\<lambda>r. f r = None) xs) = length xs"
  for f :: "'a \<Rightarrow> int option" and k :: int
proof (induction xs)
  case Nil
  show ?case by simp
next
  case (Cons a xs)
  then show ?case by (cases "f a") auto
qed

lemma ts_lt_to_datetime:
  "ts_lt (to_datetime L x) k = (\<exists>t. parse_datetime L x = Some t \<and> t < k)"
  by (simp add: to_datetime_def split: option.splits)

lemma ts_ge_to_datetime:
  "ts_ge (to_datetime L x) k = (\<exists>t. parse_datetime L x = Some t \<and> k \<le> t)"
  by (simp add: to_datetime_def split: option.splits)

lemma rows_split_before:
  "rows (fst (split_by_date L c cutoff df)) =
     map (\<lambda>r. r(c := to_datetime L (r c)))
       (filter (\<lambda>r. \<exists>t. parse_datetime L (r c) = Some t \<and> t < cutoff) (rows df))"
  by (simp add: split_by_date_def Let_def where_rows_def map_col_def filter_map o_def ts_lt_to_datetime)

lemma rows_split_after:
  "rows (snd (split_by_date L c cutoff df)) =
     map (\<lambda>r. r(c := to_datetime L (r c)))
       (filter (\<lambda>r. \<exists>t. parse_datetime L (r c) = Some t \<and> cutoff \<le> t) (rows df))"
  by (simp add: split_by_date_def Let_def where_rows_def map_col_def filter_map o_def ts_ge_to_datetime)

lemma columns_split [simp]:
  "columns (fst (split_by_date L c cutoff df)) = columns df"
  "columns (snd (split_by_date L c cutoff df)) = columns df"
  by (simp_all add: split_by_date_def Let_def where_rows_def map_col_def)

text \<open>
  Claim C3.  Splitting on a date column puts the rows with a parsed date strictly before
  the cutoff into the before part, the rows with a parsed date at or after the cutoff
  into the after part, and the rows whose date does not parse into neither; no row is in
  both parts, and the three classes together count every row once.
\<close>

theorem partition_three_way:
  "rows (fst (split_by_date L c cutoff df)) =
     map (\<lambda>r. r(c := to_datetime L (r c)))
       (filter (\<lambda>r. \<exists>t. parse_datetime L (r c) = Some t \<and> t < cutoff) (rows df))
   \<and> rows (snd (split_by_date L c cutoff df)) =
     map (\<lambda>r. r(c := to_datetime L (r c)))
       (filter (\<lambda>r. \<exists>t. parse_datetime L (r c) = Some t \<and> cutoff \<le> t) (rows df))
   \<and> set (rows (fst (split_by_date L c cutoff df))) \<inter> set (rows (snd (split_by_date L c cutoff df))) = {}
   \<and> (\<forall>r \<in> set (rows df). parse_datetime L (r c) = None \<longrightarrow>
         r(c := to_datetime L (r c)) \<notin> set (rows (fst (split_by_date L c cutoff df)))
                                      \<union> set (rows (snd (split_by_date L c cutoff df))))
   \<and> length (rows (fst (split_by_date L c cutoff df))) + length (rows (snd (split_by_date L c cutoff df)))
       + length (filter (\<lambda>r. parse_datetime L (r c) = None) (rows df)) = length (rows df)"
proof (intro conjI)
  let ?conv = "\<lambda>r. r(c := to_datetime L (r c))"
  let ?B = "rows (fst (split_by_date L c cutoff df))"
  let ?A = "rows (snd (split_by_date L c cutoff df))"
  show "?B = map ?conv (filter (\<lambda>r. \<exists>t. parse_datetime L (r c) = Some t \<and> t < cutoff) (rows df))"
    by (rule rows_split_before)
  show "?A = map ?conv (filter (\<lambda>r. \<exists>t. parse_datetime L (r c) = Some t \<and> cutoff \<le> t) (rows df))"
    by (rule rows_split_after)
  have B: "\<exists>t. x c = TsC t \<and> t < cutoff" if "x \<in> set ?B" for x
    using that by (auto simp: rows_split_before to_datetime_def)
  have A: "\<exists>t. x c = TsC t \<and> cutoff \<le> t" if "x \<in> set ?A" for x
    using that by (auto simp: rows_split_after to_datetime_def)
  show "set ?B \<inter> set ?A = {}"
  proof (rule ccontr)
    assume "set ?B \<inter> set ?A \<noteq> {}"
    then obtain x where "x \<in> set ?B" "x \<in> set ?A" by blast
    with A B show False by fastforce
  qed
  show "\<forall>r \<in> set (rows df). parse_datetime L (r c) = None \<longrightarrow> ?conv r \<notin> set ?B \<union> set ?A"
  proof (intro ballI impI)
    fix r assume "r \<in> set (rows df)" and n: "parse_datetime L (r c) = None"
    then have "?conv r c = NaT" by (simp add: to_datetime_def)
    with A [of "?conv r"] B [of "?conv r"] show "?conv r \<notin> set ?B \<union> set ?A" by auto
  qed
  show "length ?B + length ?A + length (filter (\<lambda>r. parse_datetime L (r c) = None) (rows df))
        = length (rows df)"
    by (simp only: rows_split_before rows_split_after length_map three_way_count)
qed

theorem partition_three_way_witness:
  "map (\<lambda>r. r Numero_du_client) (rows (fst (split_by_date std_lib ''Date'' (timestamp_of_date 2024 7 1) ex_inv))) = [IntC 1]
   \<and> map (\<lambda>r. r Numero_du_client) (rows (snd (split_by_date std_lib ''Date'' (timestamp_of_date 2024 7 1) ex_inv))) = [IntC 2]
   \<and> length (filter (\<lambda>r. parse_datetime std_lib (r ''Date'') = None) (rows ex_inv)) = 1"
proof -
  have 1: "map (\<lambda>r. r Numero_du_client) (rows (fst (split_by_date std_lib ''Date'' (timestamp_of_date 2024 7 1) ex_inv))) = [IntC 1]"
    by code_simp
  have 2: "map (\<lambda>r. r Numero_du_client) (rows (snd (split_by_date std_lib ''Date'' (timestamp_of_date 2024 7 1) ex_inv))) = [IntC 2]"
    by code_simp
  have 3: "length (rows ex_inv) = 3" by code_simp
  have 4: "length (rows (fst (split_by_date std_lib ''Date'' (timestamp_of_date 2024 7 1) ex_inv))) = 1"
    by code_simp
  have 5: "length (rows (snd (split_by_date std_lib ''Date'' (timestamp_of_date 2024 7 1) ex_inv))) = 1"
    by code_simp
  from partition_three_way [of std_lib "''Date''" "timestamp_of_date 2024 7 1" ex_inv]
  have "length (rows (fst (split_by_date std_lib ''Date'' (timestamp_of_date 2024 7 1) ex_inv)))
        + length (rows (snd (split_by_date std_lib ''Date'' (timestamp_of_date 2024 7 1) ex_inv)))
        + length (filter (\<lambda>r. parse_datetime std_lib (r ''Date'') = None) (rows ex_inv))
        = length (rows ex_inv)"
    by (elim conjE)
  then have "length (filter (\<lambda>r. parse_datetime std_lib (r ''Date'') = None) (rows ex_inv)) = 1"
    by (simp only: 3 4 5)
  with 1 2 show ?thesis by (intro conjI)
qed

section \<open>The result of a successful run\<close>

lemma bind_err_Inr_iff: "bind_err m f = Inr y \<longleftrightarrow> (\<exists>x. m = Inr x \<and> f x = Inr y)"
  by (cases m) (simp_all add: bind_err_def)

lemma bind_err_simps [simp]:
  "bind_err (Inl e) f = Inl e" "bind_err (Inr x) f = f x"
  by (simp_all add: bind_err_def)

lemma Numero_no_amount_keyword:
  "\<not> (str_in ''montant'' (lower Numero_du_client) \<or> str_in ''amount'' (lower Numero_du_client))"
  by code_simp

lemma Numero_no_product_keyword:
  "\<not> (str_in ''produit'' (lower Numero_du_client) \<or> str_in ''product'' (lower Numero_du_client))"
  by code_simp

lemma Montant_neq_Numero: "Montant_TTC \<noteq> Numero_du_client"
  by code_simp

lemma Produit_neq_Numero: "Nom_du_Produit \<noteq> Numero_du_client"
  by code_simp

lemma amount_column_neq_Numero: "amount_column cols \<noteq> Numero_du_client"
proof (cases "amount_cols cols")
  case Nil
  then show ?thesis by (simp add: amount_column_def Montant_neq_Numero)
next
  case (Cons c cs)
  then have "c \<in> set (amount_cols cols)" by simp
  then have "str_in ''montant'' (lower c) \<or> str_in ''amount'' (lower c)"
    by (simp add: amount_cols_def)
  with Numero_no_amount_keyword have "c \<noteq> Numero_du_client" by blast
  with Cons show ?thesis by (simp add: amount_column_def Montant_neq_Numero)
qed

lemma product_column_neq_Numero: "product_column cols \<noteq> Numero_du_client"
proof (cases "product_cols cols")
  case Nil
  then show ?thesis by (simp add: product_column_def Produit_neq_Numero)
next
  case (Cons c cs)
  then have "c \<in> set (product_cols cols)" by simp
  then have "str_in ''produit'' (lower c) \<or> str_in ''product'' (lower c)"
    by (simp add: product_cols_def)
  with Numero_no_product_keyword have "c \<noteq> Numero_du_client" by blast
  with Cons show ?thesis by (simp add: product_column_def Produit_neq_Numero)
qed

lemma isin_text_ids:
  "isin (StrC s) (map (\<lambda>c. c Numero_du_client) (rows (stringify_ids L cl)))
     \<longleftrightarrow> (\<exists>c \<in> set (rows cl). s = astype_str L (c Numero_du_client))"
  by (auto simp: isin_def stringify_ids_def map_col_def)

lemma columns_stringify_ids [simp]: "columns (stringify_ids L df) = columns df"
  by (simp add: stringify_ids_def map_col_def)

lemma isin_text_list:
  "isin (StrC s) (map (\<lambda>c. StrC (astype_str L (c Numero_du_client))) cs)
     \<longleftrightarrow> (\<exists>c \<in> set cs. s = astype_str L (c Numero_du_client))"
  by (auto simp: isin_def)

lemma rows_kept:
  assumes "a \<noteq> Numero_du_client"
  shows "map (\<lambda>r. r(a := to_numeric L (replace_comma (r a))))
           (filter (\<lambda>r. isin (r Numero_du_client)
                      (map (\<lambda>c. StrC (astype_str L (c Numero_du_client))) cs))
              (map (\<lambda>r. r(Numero_du_client := StrC (astype_str L (r Numero_du_client))))
                 (filter (\<lambda>r. ne_zero (r a)) xs)))
         = map (prepared L a)
             (filter (\<lambda>r. ne_zero (r a)
                        \<and> (\<exists>c \<in> set cs. astype_str L (r Numero_du_client) = astype_str L (c Numero_du_client)))
                xs)"
  using assms
  by (induction xs) (simp_all add: isin_text_list prepared_def)

lemma kept_invoices_eq:
  "kept_invoices L retained invoices =
     (if amount_column (columns invoices) \<in> set (columns invoices)
      then Inr \<lparr>columns = columns invoices,
                rows = map (prepared L (amount_column (columns invoices)))
                         (surviving_rows L retained invoices)\<rparr>
      else Inl (KeyError (amount_column (columns invoices))))"
proof (cases invoices)
  case (fields cols rws)
  have neq: "amount_column cols \<noteq> Numero_du_client" by (rule amount_column_neq_Numero)
  show ?thesis
    unfolding fields
    by (simp add: kept_invoices_def zero_filter_def normalize_amounts_def stringify_ids_def
        where_rows_def map_col_def surviving_rows_def o_def rows_kept [OF neq])
qed

lemma first_seen_Cons:
  "rev (remdups (rev (x # xs))) = x # rev (remdups (rev (filter (\<lambda>y. y \<noteq> x) xs)))"
proof -
  have "remdups (ys @ [x]) = remdups (filter (\<lambda>y. y \<noteq> x) ys) @ [x]" for ys
    by (induction ys) auto
  then show ?thesis by (simp add: rev_filter)
qed

lemma unique_from_eq:
  "unique_from seen xs = rev seen @ rev (remdups (rev (filter (\<lambda>x. x \<notin> set seen) xs)))"
proof (induction xs arbitrary: seen)
  case Nil
  show ?case by simp
next
  case (Cons x xs)
  show ?case
  proof (cases "x \<in> set seen")
    case True
    with Cons show ?thesis by simp
  next
    case False
    have "filter (\<lambda>y. y \<noteq> x) (filter (\<lambda>y. y \<notin> set seen) xs)
          = filter (\<lambda>y. y \<notin> set (x # seen)) xs"
      by (induction xs) auto
    with False Cons [of "x # seen"] show ?thesis
      by (simp add: first_seen_Cons del: rev.simps remdups.simps set_simps) (simp)
  qed
qed

lemma unique_first_seen: "unique xs = rev (remdups (rev xs))"
  by (simp add: unique_def unique_from_eq)

lemma set_unique [simp]: "set (unique xs) = set xs"
  by (simp add: unique_first_seen)

lemma distinct_unique [simp]: "distinct (unique xs)"
  by (simp add: unique_first_seen)

lemma collect_Inr_iff: "collect xs = Inr ys \<longleftrightarrow> xs = map Inr ys"
proof (induction xs arbitrary: ys)
  case Nil
  show ?case by auto
next
  case (Cons x xs)
  show ?case
  proof (cases x)
    case (Inl e)
    then show ?thesis by (cases ys) auto
  next
    case (Inr v)
    show ?thesis
    proof (cases "collect xs")
      case (Inl e)
      with Cons [of "tl ys"] Inr show ?thesis by (cases ys) auto
    next
      case r: (Inr vs)
      with Cons [of vs] Cons [of "tl ys"] Inr show ?thesis by (cases ys) auto
    qed
  qed
qed

lemma text_of_prepared_id:
  "a \<noteq> Numero_du_client \<Longrightarrow> text_of (prepared L a r Numero_du_client) = astype_str L (r Numero_du_client)"
  by (simp add: prepared_def)

lemma group_keys_prepared:
  "a \<noteq> Numero_du_client \<Longrightarrow>
   group_keys \<lparr>columns = cols, rows = map (prepared L a) xs\<rparr> = result_keys L xs"
  by (simp add: group_keys_def result_keys_def o_def text_of_prepared_id)

lemma group_rows_prepared:
  "a \<noteq> Numero_du_client \<Longrightarrow>
   group_rows \<lparr>columns = cols, rows = map (prepared L a) xs\<rparr> k = map (prepared L a) (client_rows L k xs)"
  by (simp add: group_rows_def client_rows_def filter_map o_def text_of_prepared_id)

lemma agg_group_prepared:
  assumes "a \<noteq> Numero_du_client" "p \<noteq> Numero_du_client" "a \<noteq> p"
  shows "agg_group a p \<lparr>columns = cols, rows = map (prepared L a) xs\<rparr> k =
           (if \<forall>r \<in> set (client_rows L k xs). is_text (r p)
            then Inr (group_result L a p xs k) else Inl TypeError)"
proof -
  have 1: "map ((\<lambda>r. r p) \<circ> prepared L a) ys = map (\<lambda>r. r p) ys" for ys
    using assms by (simp add: prepared_def)
  have 2: "map ((\<lambda>r. amount_value (r a)) \<circ> prepared L a) ys = map (normalized_amount L a) ys" for ys
    using assms by (simp add: prepared_def normalized_amount_def)
  show ?thesis
    by (simp add: agg_group_def group_rows_prepared [OF assms(1)] join_products_def 1 2
        group_result_def list_all_iff)
qed

lemma key_of_surviving:
  "r \<in> set xs \<Longrightarrow> astype_str L (r Numero_du_client) \<in> set (result_keys L xs)"
  by (simp add: result_keys_def)

lemma all_groups_text:
  "(\<forall>k \<in> set (result_keys L xs). \<forall>r \<in> set (client_rows L k xs). is_text (r p))
     \<longleftrightarrow> (\<forall>r \<in> set xs. is_text (r p))"
  by (auto simp: result_keys_def client_rows_def)

lemma aggregate_prepared:
  assumes "a \<noteq> Numero_du_client" "p \<noteq> Numero_du_client"
  shows "aggregate a p \<lparr>columns = cols, rows = map (prepared L a) xs\<rparr> = Inr ts
     \<longleftrightarrow> a \<in> set cols \<and> p \<in> set cols \<and> a \<noteq> p \<and> (\<forall>r \<in> set xs. is_text (r p))
          \<and> ts = map (group_result L a p xs) (result_keys L xs)"
proof (cases "a \<in> set cols \<and> p \<in> set cols \<and> a \<noteq> p")
  case False
  then show ?thesis
    by (auto simp: aggregate_def bind_err_Inr_iff)
next
  case True
  then have ap: "a \<noteq> p" by simp
  let ?df = "\<lparr>columns = cols, rows = map (prepared L a) xs\<rparr>"
  have ag: "map (agg_group a p ?df) (result_keys L xs) = map Inr ts
        \<longleftrightarrow> (\<forall>r \<in> set xs. is_text (r p)) \<and> ts = map (group_result L a p xs) (result_keys L xs)"
    (is "?l \<longleftrightarrow> ?r")
  proof
    assume l: ?l
    have "\<forall>r \<in> set (client_rows L k xs). is_text (r p)" if "k \<in> set (result_keys L xs)" for k
    proof (rule ccontr)
      assume "\<not> ?thesis"
      then have "agg_group a p ?df k = Inl TypeError"
        by (simp add: agg_group_prepared [OF assms ap])
      moreover from l that have "agg_group a p ?df k \<in> set (map Inr ts)"
        by (metis image_eqI list.set_map)
      ultimately show False by auto
    qed
    then have t: "\<forall>r \<in> set xs. is_text (r p)"
      using all_groups_text [of L xs p] by blast
    then have "\<forall>k. \<forall>r \<in> set (client_rows L k xs). is_text (r p)"
      by (simp add: client_rows_def)
    then have e: "map (agg_group a p ?df) (result_keys L xs)
               = map Inr (map (group_result L a p xs) (result_keys L xs))"
      by (simp add: agg_group_prepared [OF assms ap])
    have "map (Inr :: result_row \<Rightarrow> error + result_row) ts
          = map Inr (map (group_result L a p xs) (result_keys L xs))"
      by (rule trans [OF l [symmetric] e])
    then have "ts = map (group_result L a p xs) (result_keys L xs)"
      by (simp only: inj_map_eq_map [OF inj_Inr])
    with t show ?r by simp
  next
    assume r: ?r
    then have "\<forall>k. \<forall>r \<in> set (client_rows L k xs). is_text (r p)"
      by (simp add: client_rows_def)
    with r show ?l by (simp add: agg_group_prepared [OF assms ap])
  qed
  from True show ?thesis
    by (simp add: aggregate_def bind_err_Inr_iff group_keys_prepared [OF assms(1)] collect_Inr_iff ag)
qed

lemma columns_split_by_index [simp]:
  "columns (fst (split_by_index df)) = columns df"
  "columns (snd (split_by_index df)) = columns df"
  by (simp_all add: split_by_index_def Let_def)

lemma columns_partition [simp]:
  "columns (fst (partition_invoices L inp)) = columns (all_invoices inp)"
  "columns (snd (partition_invoices L inp)) = columns (all_invoices inp)"
  by (simp_all add: partition_invoices_def Let_def split: list.splits)

lemma pipeline_Inr_iff:
  "pipeline L inp = Inr res \<longleftrightarrow>
     (\<exists>retained.
        retained_clients inp (fst (partition_invoices L inp)) = Inr retained
        \<and> amount_column (columns (all_invoices inp)) \<in> set (columns (all_invoices inp))
        \<and> product_column (columns (all_invoices inp)) \<in> set (columns (all_invoices inp))
        \<and> amount_column (columns (all_invoices inp)) \<noteq> product_column (columns (all_invoices inp))
        \<and> (\<forall>r \<in> set (surviving_rows L retained (snd (partition_invoices L inp))).
              is_text (r (product_column (columns (all_invoices inp)))))
        \<and> res = run_result L inp retained)"
proof -
  let ?cols = "columns (all_invoices inp)"
  let ?a = "amount_column ?cols" and ?p = "product_column ?cols"
  have a: "?a \<noteq> Numero_du_client" by (rule amount_column_neq_Numero)
  have p: "?p \<noteq> Numero_du_client" by (rule product_column_neq_Numero)
  show ?thesis
    by (auto simp: pipeline_def case_prod_beta bind_err_Inr_iff kept_invoices_eq
        aggregate_prepared [OF a p] run_result_def Let_def split: if_splits)
qed

lemma merge_row_fields:
  "u \<in> set (merge_row cl t) \<Longrightarrow> rid u = rid t \<and> total u = total t \<and> products u = products t"
  by (auto simp: merge_row_def split: list.splits)

lemma merge_row_nonempty: "merge_row cl t \<noteq> []"
  by (simp add: merge_row_def split: list.splits)

lemma merge_email_fields:
  "u \<in> set (merge_email cl ts) \<Longrightarrow>
     \<exists>t \<in> set ts. rid u = rid t \<and> total u = total t \<and> products u = products t"
  by (auto simp: merge_email_def dest: merge_row_fields split: if_splits)

lemma merge_email_covers:
  assumes "t \<in> set ts"
  shows "\<exists>u \<in> set (merge_email cl ts). rid u = rid t \<and> total u = total t \<and> products u = products t"
proof (cases "''Email'' \<in> set (columns cl)")
  case False
  with assms show ?thesis by (auto simp: merge_email_def)
next
  case True
  obtain u where u: "u \<in> set (merge_row cl t)"
    using merge_row_nonempty [of cl t] by (cases "merge_row cl t") auto
  with assms True have "u \<in> set (merge_email cl ts)" by (auto simp: merge_email_def)
  with merge_row_fields [OF u] show ?thesis by blast
qed

lemma rid_merge_email: "rid ` set (merge_email cl ts) = rid ` set ts"
proof (intro set_eqI iffI)
  fix k assume "k \<in> rid ` set (merge_email cl ts)"
  then show "k \<in> rid ` set ts" using merge_email_fields by fastforce
next
  fix k assume "k \<in> rid ` set ts"
  then obtain t where "t \<in> set ts" "k = rid t" by auto
  with merge_email_covers [of t ts cl] show "k \<in> rid ` set (merge_email cl ts)"
    by (metis image_eqI)
qed

lemma sorted_constant_block:
  "\<forall>u \<in> set us. rid u = k \<Longrightarrow> sorted (map rid us)"
  by (induction us) auto

lemma sorted_merge_email:
  "sorted (map rid ts) \<Longrightarrow> sorted (map rid (merge_email cl ts))"
proof (induction ts)
  case Nil
  show ?case by (simp add: merge_email_def)
next
  case (Cons t ts)
  have blk: "rid u = rid t'" if "u \<in> set (merge_row cl t')" for u t'
    using that merge_row_fields by blast
  have s1: "sorted (map rid (merge_row cl t))"
    by (rule sorted_constant_block [of _ "rid t"]) (simp add: blk)
  from Cons have le: "\<forall>x \<in> set ts. rid t \<le> rid x" and st: "sorted (map rid ts)"
    by auto
  from Cons.IH [OF st] have s2: "sorted (map rid (merge_email cl ts))" .
  show ?case
  proof (cases "''Email'' \<in> set (columns cl)")
    case False
    with Cons.prems show ?thesis by (simp add: merge_email_def)
  next
    case True
    with s2 have s3: "sorted (map rid (concat (map (merge_row cl) ts)))"
      by (simp add: merge_email_def)
    have "rid a \<le> rid b"
      if "a \<in> set (merge_row cl t)" "b \<in> set (concat (map (merge_row cl) ts))" for a b
    proof -
      from that(2) obtain y where "y \<in> set ts" "b \<in> set (merge_row cl y)" by auto
      with le blk [of b y] blk [OF that(1)] show ?thesis by simp
    qed
    with True s1 s3 show ?thesis
      by (auto simp: merge_email_def sorted_append)
  qed
qed

lemma rid_group_results [simp]:
  "map (rid \<circ> group_result L a p xs) ks = ks"
  by (induction ks) (simp_all add: group_result_def)

lemma sorted_result_keys [simp]: "sorted (result_keys L xs)"
  by (simp add: result_keys_def)

lemma distinct_result_keys [simp]: "distinct (result_keys L xs)"
  by (simp add: result_keys_def)

lemma set_result_keys [simp]:
  "set (result_keys L xs) = (\<lambda>r. astype_str L (r Numero_du_client)) ` set xs"
  by (simp add: result_keys_def)

lemma rid_run_result:
  "rid ` set (run_result L inp retained)
     = (\<lambda>r. astype_str L (r Numero_du_client)) `
         set (surviving_rows L retained (snd (partition_invoices L inp)))"
proof -
  have "rid ` set (map (group_result L a p xs) ks) = set ks" for a p xs ks
  proof -
    have "rid ` set (map (group_result L a p xs) ks) = set (map rid (map (group_result L a p xs) ks))"
      by (simp only: set_map)
    also have "map rid (map (group_result L a p xs) ks) = map (rid \<circ> group_result L a p xs) ks"
      by (simp only: map_map)
    finally show ?thesis by (simp only: rid_group_results)
  qed
  then show ?thesis
    by (simp only: run_result_def Let_def rid_merge_email set_result_keys)
qed

lemma sorted_run_result: "sorted (map rid (run_result L inp retained))"
  by (simp add: run_result_def Let_def sorted_merge_email)

lemma run_result_row:
  assumes "u \<in> set (run_result L inp retained)"
  shows "u\<lparr>email := None\<rparr> =
           group_result L (amount_column (columns (all_invoices inp)))
             (product_column (columns (all_invoices inp)))
             (surviving_rows L retained (snd (partition_invoices L inp))) (rid u)"
proof -
  let ?xs = "surviving_rows L retained (snd (partition_invoices L inp))"
  let ?g = "group_result L (amount_column (columns (all_invoices inp)))
             (product_column (columns (all_invoices inp))) ?xs"
  from assms obtain t where t: "t \<in> set (map ?g (result_keys L ?xs))"
    and f: "rid u = rid t \<and> total u = total t \<and> products u = products t"
    unfolding run_result_def Let_def using merge_email_fields by blast
  from t obtain k where "t = ?g k" by auto
  with f show ?thesis by (simp add: group_result_def)
qed

lemma astype_str_parse_float [simp]:
  "astype_str (L\<lparr>parse_float := pf\<rparr>) c = astype_str L c"
  by (cases c) simp_all

lemma to_datetime_parse_float [simp]:
  "to_datetime (L\<lparr>parse_float := pf\<rparr>) = to_datetime L"
  by (rule ext) (simp add: to_datetime_def)

lemma split_by_date_parse_float [simp]:
  "split_by_date (L\<lparr>parse_float := pf\<rparr>) c k df = split_by_date L c k df"
  by (simp add: split_by_date_def)

lemma partition_invoices_parse_float [simp]:
  "partition_invoices (L\<lparr>parse_float := pf\<rparr>) inp = partition_invoices L inp"
  by (simp add: partition_invoices_def Let_def split: list.splits)

lemma surviving_rows_parse_float [simp]:
  "surviving_rows (L\<lparr>parse_float := pf\<rparr>) retained invoices = surviving_rows L retained invoices"
  by (simp add: surviving_rows_def)

lemma run_result_covers:
  assumes "r \<in> set (surviving_rows L retained (snd (partition_invoices L inp)))"
  shows "\<exists>t \<in> set (run_result L inp retained).
           t\<lparr>email := None\<rparr> =
             group_result L (amount_column (columns (all_invoices inp)))
               (product_column (columns (all_invoices inp)))
               (surviving_rows L retained (snd (partition_invoices L inp)))
               (astype_str L (r Numero_du_client))"
proof -
  let ?xs = "surviving_rows L retained (snd (partition_invoices L inp))"
  let ?k = "astype_str L (r Numero_du_client)"
  from assms have "?k \<in> rid ` set (run_result L inp retained)"
    by (simp only: rid_run_result) (rule imageI)
  then obtain t where t: "t \<in> set (run_result L inp retained)" and k: "rid t = ?k"
    by auto
  from run_result_row [OF t] k t show ?thesis by auto
qed

lemma Email_neq_Numero: "''Email'' \<noteq> Numero_du_client"
  by code_simp

lemma merge_row_stringified:
  "merge_row (stringify_ids L retained) t =
     (case filter (\<lambda>c. astype_str L (c Numero_du_client) = rid t) (rows retained) of
        [] \<Rightarrow> [t\<lparr>email := Some NaN\<rparr>]
      | ms \<Rightarrow> map (\<lambda>c. t\<lparr>email := Some (c ''Email'')\<rparr>) ms)"
proof -
  let ?g = "\<lambda>r. r(Numero_du_client := StrC (astype_str L (r Numero_du_client)))"
  have f: "filter (\<lambda>c. text_of (c Numero_du_client) = rid t) (rows (stringify_ids L retained))
        = map ?g (filter (\<lambda>c. astype_str L (c Numero_du_client) = rid t) (rows retained))"
    by (simp add: stringify_ids_def map_col_def filter_map o_def)
  show ?thesis
    unfolding merge_row_def f
    using Email_neq_Numero
    by (cases "filter (\<lambda>c. astype_str L (c Numero_du_client) = rid t) (rows retained)")
       (simp_all add: o_def)
qed

section \<open>Which clients the result lists\<close>

text \<open>
  Claim C10.  On a successful run the client numbers of the result rows are exactly the
  client numbers (as texts) of the after-cutoff invoice rows that pass the zero-amount
  filter and belong to a retained client.  So every result row is a retained client with
  a surviving invoice, and a retained client without one has no row at all.
\<close>

theorem result_rows_are_clients_with_surviving_invoice:
  assumes "pipeline L inp = Inr res"
  shows "\<exists>retained.
           retained_clients inp (fst (partition_invoices L inp)) = Inr retained
           \<and> rid ` set res =
               {astype_str L (r Numero_du_client) | r.
                  r \<in> set (rows (snd (partition_invoices L inp)))
                  \<and> ne_zero (r (amount_column (columns (all_invoices inp))))
                  \<and> (\<exists>c \<in> set (rows retained).
                        astype_str L (r Numero_du_client) = astype_str L (c Numero_du_client))}"
proof -
  from assms obtain retained where
    ret: "retained_clients inp (fst (partition_invoices L inp)) = Inr retained"
    and res: "res = run_result L inp retained"
    unfolding pipeline_Inr_iff by blast
  have "rid ` set res = (\<lambda>r. astype_str L (r Numero_du_client)) `
         set (surviving_rows L retained (snd (partition_invoices L inp)))"
    unfolding res by (rule rid_run_result)
  also have "\<dots> = {astype_str L (r Numero_du_client) | r.
                  r \<in> set (rows (snd (partition_invoices L inp)))
                  \<and> ne_zero (r (amount_column (columns (all_invoices inp))))
                  \<and> (\<exists>c \<in> set (rows retained).
                        astype_str L (r Numero_du_client) = astype_str L (c Numero_du_client))}"
    by (auto simp: surviving_rows_def)
  finally show ?thesis using ret by blast
qed

theorem result_rows_are_clients_with_surviving_invoice_witness:
  "pipeline std_lib unparsable_input = Inr unparsable_result
   \<and> (\<exists>retained.
         retained_clients unparsable_input (fst (partition_invoices std_lib unparsable_input)) = Inr retained
         \<and> rid ` set unparsable_result =
             {astype_str std_lib (r Numero_du_client) | r.
                r \<in> set (rows (snd (partition_invoices std_lib unparsable_input)))
                \<and> ne_zero (r (amount_column (columns (all_invoices unparsable_input))))
                \<and> (\<exists>c \<in> set (rows retained).
                      astype_str std_lib (r Numero_du_client) = astype_str std_lib (c Numero_du_client))})"
proof -
  have h: "pipeline std_lib unparsable_input = Inr unparsable_result"
    by code_simp
  from h result_rows_are_clients_with_surviving_invoice [OF h] show ?thesis
    by (rule conjI)
qed

section \<open>The result is a function of the inputs\<close>

text \<open>
  Claim C8.  Two runs on the same tables, cutoff and settings give the same result
  table.  Nothing in it depends on an iteration order: the rows come in ascending order
  of the client number, and the Products text of a row is the comma-joined list of the
  distinct product cells of the client's rows, each at the place of its first appearance
  in the invoice table.
\<close>

theorem result_is_reproducible:
  assumes "pipeline L inp = Inr res" and "pipeline L inp = Inr res'"
  shows "res' = res
     \<and> sorted (map rid res)
     \<and> (\<exists>retained.
           retained_clients inp (fst (partition_invoices L inp)) = Inr retained
           \<and> (\<forall>t \<in> set res.
                 products t =
                   join '', ''
                     (map text_of
                        (rev (remdups (rev
                           (map (\<lambda>r. r (product_column (columns (all_invoices inp))))
                              (filter (\<lambda>r. astype_str L (r Numero_du_client) = rid t)
                                 (surviving_rows L retained (snd (partition_invoices L inp)))))))))))"
proof -
  from assms(1) obtain retained where
    ret: "retained_clients inp (fst (partition_invoices L inp)) = Inr retained"
    and res: "res = run_result L inp retained"
    unfolding pipeline_Inr_iff by blast
  have same: "res' = res" using assms by simp
  have srt: "sorted (map rid res)" unfolding res by (rule sorted_run_result)
  have prods: "products t =
                   join '', ''
                     (map text_of
                        (rev (remdups (rev
                           (map (\<lambda>r. r (product_column (columns (all_invoices inp))))
                              (filter (\<lambda>r. astype_str L (r Numero_du_client) = rid t)
                                 (surviving_rows L retained (snd (partition_invoices L inp)))))))))"
    if "t \<in> set res" for t
  proof -
    from that have "t\<lparr>email := None\<rparr> =
           group_result L (amount_column (columns (all_invoices inp)))
             (product_column (columns (all_invoices inp)))
             (surviving_rows L retained (snd (partition_invoices L inp))) (rid t)"
      unfolding res by (rule run_result_row)
    then have "products (t\<lparr>email := None\<rparr>) =
           products (group_result L (amount_column (columns (all_invoices inp)))
             (product_column (columns (all_invoices inp)))
             (surviving_rows L retained (snd (partition_invoices L inp))) (rid t))"
      by simp
    then show ?thesis
      by (simp add: group_result_def client_rows_def unique_first_seen)
  qed
  from same srt ret prods show ?thesis by blast
qed

theorem result_is_reproducible_witness:
  "pipeline std_lib unparsable_input = Inr unparsable_result
   \<and> sorted (map rid unparsable_result)
   \<and> (\<exists>retained.
         retained_clients unparsable_input (fst (partition_invoices std_lib unparsable_input)) = Inr retained
         \<and> (\<forall>t \<in> set unparsable_result.
               products t =
                 join '', ''
                   (map text_of
                      (rev (remdups (rev
                         (map (\<lambda>r. r (product_column (columns (all_invoices unparsable_input))))
                            (filter (\<lambda>r. astype_str std_lib (r Numero_du_client) = rid t)
                               (surviving_rows std_lib retained
                                  (snd (partition_invoices std_lib unparsable_input)))))))))))"
proof -
  have h: "pipeline std_lib unparsable_input = Inr unparsable_result"
    by code_simp
  from result_is_reproducible [OF h h] h show ?thesis
    by blast
qed

section \<open>Runs on which the program and its description part\<close>

text \<open>
  Claim C1.  The zero-amount filter of line 201 compares the raw cell with the number 0,
  before the decimal comma is replaced and the text is parsed.  In the scenario of the
  specification the amount \<^verbatim>\<open>"0,00"\<close> is a text, so the row stays: the total is still
  15, but the product of the zero row is listed.  When the same amount arrives as the
  number 0 the row is dropped.
\<close>

theorem text_zero_amount_row_is_kept:
  "pipeline std_lib zero_row_input =
     Inr [\<lparr>rid = ''2'', total = 15, products = ''A, B'', email = Some (StrC ''a@x.fr'')\<rparr>]
   \<and> pipeline std_lib zero_num_input =
     Inr [\<lparr>rid = ''2'', total = 15, products = ''B'', email = Some (StrC ''a@x.fr'')\<rparr>]"
proof (rule conjI)
  show "pipeline std_lib zero_row_input =
     Inr [\<lparr>rid = ''2'', total = 15, products = ''A, B'', email = Some (StrC ''a@x.fr'')\<rparr>]"
    by code_simp
  show "pipeline std_lib zero_num_input =
     Inr [\<lparr>rid = ''2'', total = 15, products = ''B'', email = Some (StrC ''a@x.fr'')\<rparr>]"
    by code_simp
qed

text \<open>
  Claim C5.  The tests of lines 186 and 189 compare raw cells, and the conversion to
  texts of lines 205-206 comes after them.  With client number 1023 an integer in the
  client table and a text in the invoice table, the invoice of 2024-06-01 does not
  exclude the client, and the client is in the result.
\<close>

theorem client_with_before_invoice_in_result:
  "map (\<lambda>r. r Numero_du_client) (rows (fst (partition_invoices std_lib mixed_id_input)))
     = [StrC ''1023'']
   \<and> pipeline std_lib mixed_id_input =
     Inr [\<lparr>rid = ''1023'', total = 20, products = ''B'', email = Some (StrC ''a@x.fr'')\<rparr>]"
proof (rule conjI)
  show "map (\<lambda>r. r Numero_du_client) (rows (fst (partition_invoices std_lib mixed_id_input)))
     = [StrC ''1023'']"
    by code_simp
  show "pipeline std_lib mixed_id_input =
     Inr [\<lparr>rid = ''1023'', total = 20, products = ''B'', email = Some (StrC ''a@x.fr'')\<rparr>]"
    by code_simp
qed

text \<open>A run whose product column is not a column of the invoice table has no result.\<close>

lemma no_product_column_no_result:
  "product_column (columns (all_invoices inp)) \<notin> set (columns (all_invoices inp))
     \<Longrightarrow> pipeline L inp \<noteq> Inr res"
  by (simp add: pipeline_Inr_iff)

text \<open>
  Claim C7.  Without a product column the aggregation dictionary is keyed by the
  canonical name, which is not a column: the aggregation raises KeyError and the run has
  no result.  The \<^verbatim>\<open>'N/A'\<close> branch of the lambda is never reached.
\<close>

theorem missing_product_column_aborts:
  "product_cols (columns (all_invoices no_product_input)) = []
   \<and> pipeline std_lib no_product_input = Inl (KeyError Nom_du_Produit)"
proof (rule conjI)
  show "product_cols (columns (all_invoices no_product_input)) = []"
    by code_simp
  show "pipeline std_lib no_product_input = Inl (KeyError Nom_du_Produit)"
    by code_simp
qed

section \<open>Amounts that do not parse\<close>

text \<open>
  Claim C6.  Whether an amount text parses does not decide whether the run aborts: if the
  run has a result for some behaviour of the amount parser, it has one for the parser at
  hand.  A row of the after part whose amount text does not parse, and whose client is
  retained, gets the missing value NaN as its amount, which adds 0 to the client's total;
  the row stays among the rows that are aggregated, its client has a result row, and the
  row's product cell counts towards the Products text of that row.
\<close>

theorem unparsable_amount_is_missing_not_fatal:
  assumes ok: "pipeline (L\<lparr>parse_float := pf\<rparr>) inp = Inr res0"
    and ret: "retained_clients inp (fst (partition_invoices L inp)) = Inr retained"
    and r: "r \<in> set (rows (snd (partition_invoices L inp)))"
    and cell: "r (amount_column (columns (all_invoices inp))) = StrC s"
    and bad: "parse_float L (map (\<lambda>c. if c = CHR '','' then CHR ''.'' else c) s) = None"
    and client: "\<exists>c \<in> set (rows retained).
                   astype_str L (r Numero_du_client) = astype_str L (c Numero_du_client)"
  shows "\<exists>res. pipeline L inp = Inr res
     \<and> to_numeric L (replace_comma (r (amount_column (columns (all_invoices inp))))) = NaN
     \<and> normalized_amount L (amount_column (columns (all_invoices inp))) r = 0
     \<and> r \<in> set (surviving_rows L retained (snd (partition_invoices L inp)))
     \<and> (\<exists>t \<in> set res.
           rid t = astype_str L (r Numero_du_client)
           \<and> r \<in> set (client_rows L (rid t) (surviving_rows L retained (snd (partition_invoices L inp))))
           \<and> total t =
               sum_list (map (normalized_amount L (amount_column (columns (all_invoices inp))))
                  (client_rows L (rid t) (surviving_rows L retained (snd (partition_invoices L inp)))))
           \<and> products t =
               join '', ''
                 (map text_of
                    (unique (map (\<lambda>r. r (product_column (columns (all_invoices inp))))
                       (client_rows L (rid t)
                          (surviving_rows L retained (snd (partition_invoices L inp))))))))"
proof -
  let ?a = "amount_column (columns (all_invoices inp))"
  let ?p = "product_column (columns (all_invoices inp))"
  let ?xs = "surviving_rows L retained (snd (partition_invoices L inp))"
  from ok ret have conds: "?a \<in> set (columns (all_invoices inp))"
      "?p \<in> set (columns (all_invoices inp))" "?a \<noteq> ?p" "\<forall>r \<in> set ?xs. is_text (r ?p)"
    by (auto simp: pipeline_Inr_iff)
  with ret have run: "pipeline L inp = Inr (run_result L inp retained)"
    by (simp add: pipeline_Inr_iff)
  have nan: "to_numeric L (replace_comma (r ?a)) = NaN"
    using cell bad by simp
  then have zero: "normalized_amount L ?a r = 0"
    by (simp add: normalized_amount_def)
  have surv: "r \<in> set ?xs"
    using r cell client by (simp add: surviving_rows_def)
  from run_result_covers [OF surv] obtain t where
    t: "t \<in> set (run_result L inp retained)"
    and g: "t\<lparr>email := None\<rparr> = group_result L ?a ?p ?xs (astype_str L (r Numero_du_client))"
    by blast
  from g have "rid (t\<lparr>email := None\<rparr>)
        = rid (group_result L ?a ?p ?xs (astype_str L (r Numero_du_client)))"
    by (rule arg_cong)
  then have id: "rid t = astype_str L (r Numero_du_client)"
    by (simp add: group_result_def)
  from g have "total (t\<lparr>email := None\<rparr>)
        = total (group_result L ?a ?p ?xs (astype_str L (r Numero_du_client)))"
    by (rule arg_cong)
  then have tot: "total t = sum_list (map (normalized_amount L ?a) (client_rows L (rid t) ?xs))"
    by (simp add: group_result_def id)
  from g have "products (t\<lparr>email := None\<rparr>)
        = products (group_result L ?a ?p ?xs (astype_str L (r Numero_du_client)))"
    by (rule arg_cong)
  then have pro: "products t
        = join '', '' (map text_of (unique (map (\<lambda>r. r ?p) (client_rows L (rid t) ?xs))))"
    by (simp add: group_result_def id)
  from surv id have mem: "r \<in> set (client_rows L (rid t) ?xs)"
    by (simp add: client_rows_def)
  from run nan zero surv t id mem tot pro show ?thesis by blast
qed

theorem unparsable_amount_is_missing_not_fatal_witness:
  "\<exists>retained.
     retained_clients unparsable_input (fst (partition_invoices std_lib unparsable_input)) = Inr retained
     \<and> unparsable_row (amount_column (columns (all_invoices unparsable_input))) = StrC ''abc''
     \<and> parse_float std_lib ''abc'' = None
     \<and> (\<exists>res. pipeline std_lib unparsable_input = Inr res
     \<and> to_numeric std_lib (replace_comma (unparsable_row (amount_column (columns (all_invoices unparsable_input))))) = NaN
     \<and> normalized_amount std_lib (amount_column (columns (all_invoices unparsable_input))) unparsable_row = 0
     \<and> unparsable_row \<in> set (surviving_rows std_lib retained (snd (partition_invoices std_lib unparsable_input)))
     \<and> (\<exists>t \<in> set res.
           rid t = astype_str std_lib (unparsable_row Numero_du_client)
           \<and> unparsable_row \<in> set (client_rows std_lib (rid t) (surviving_rows std_lib retained (snd (partition_invoices std_lib unparsable_input))))
           \<and> total t =
               sum_list (map (normalized_amount std_lib (amount_column (columns (all_invoices unparsable_input))))
                  (client_rows std_lib (rid t) (surviving_rows std_lib retained (snd (partition_invoices std_lib unparsable_input)))))
           \<and> products t =
               join '', ''
                 (map text_of
                    (unique (map (\<lambda>r. r (product_column (columns (all_invoices unparsable_input))))
                       (client_rows std_lib (rid t)
                          (surviving_rows std_lib retained (snd (partition_invoices std_lib unparsable_input)))))))))"
proof -
  let ?L' = "std_lib\<lparr>parse_float := \<lambda>_. Some 0\<rparr>"
  have ok: "pipeline ?L' unparsable_input = Inr all_zero_result"
    by code_simp
  then obtain retained where
    ret: "retained_clients unparsable_input (fst (partition_invoices std_lib unparsable_input)) = Inr retained"
    and res: "all_zero_result = run_result ?L' unparsable_input retained"
    unfolding pipeline_Inr_iff by auto
  have len: "length (rows (snd (partition_invoices std_lib unparsable_input))) = 5"
    by code_simp
  then have "rows (snd (partition_invoices std_lib unparsable_input)) \<noteq> []"
    by auto
  then have r: "unparsable_row \<in> set (rows (snd (partition_invoices std_lib unparsable_input)))"
    unfolding unparsable_row_def by (rule hd_in_set)
  have cell: "unparsable_row (amount_column (columns (all_invoices unparsable_input))) = StrC ''abc''"
    by code_simp
  have bad: "parse_float std_lib (map (\<lambda>c. if c = CHR '','' then CHR ''.'' else c) ''abc'') = None"
    by code_simp
  have bad': "parse_float std_lib ''abc'' = None"
    by code_simp
  have key: "astype_str std_lib (unparsable_row Numero_du_client) = ''2''"
    by code_simp
  have "''2'' \<in> rid ` set all_zero_result"
    by (simp add: all_zero_result_def)
  then have "''2'' \<in> (\<lambda>r. astype_str ?L' (r Numero_du_client)) `
         set (surviving_rows ?L' retained (snd (partition_invoices ?L' unparsable_input)))"
    unfolding res rid_run_result .
  then have client: "\<exists>c \<in> set (rows retained).
       astype_str std_lib (unparsable_row Numero_du_client) = astype_str std_lib (c Numero_du_client)"
    by (auto simp: surviving_rows_def key)
  from unparsable_amount_is_missing_not_fatal [OF ok ret r cell bad client] ret cell bad'
  show ?thesis by blast
qed

section \<open>How client numbers are compared\<close>

text \<open>
  Claim C2, as the program has it.  The client numbers are not trimmed, and a float keeps
  its decimal point when it becomes a text: the invoice of the client number 1023 with a
  trailing blank is not counted for client 1023, and the float 1023.0 becomes
  \<^verbatim>\<open>1023.0\<close>, which does not match the integer 1023 and shows in the result when
  both tables hold floats.
\<close>

theorem client_ids_not_trimmed_and_floats_keep_their_point:
  "astype_str std_lib (StrC ''1023 '') \<noteq> astype_str std_lib (IntC 1023)
   \<and> pipeline std_lib padded_id_input =
       Inr [\<lparr>rid = ''A12'', total = 5, products = ''C'', email = Some (StrC ''b@x.fr'')\<rparr>]
   \<and> astype_str std_lib (FloatC 1023) = ''1023.0''
   \<and> pipeline std_lib float_id_input = Inr []
   \<and> pipeline std_lib float_both_input =
       Inr [\<lparr>rid = ''1023.0'', total = 15, products = ''B'', email = Some (StrC ''a@x.fr'')\<rparr>]"
proof (intro conjI)
  show "astype_str std_lib (StrC ''1023 '') \<noteq> astype_str std_lib (IntC 1023)" by code_simp
  show "pipeline std_lib padded_id_input =
       Inr [\<lparr>rid = ''A12'', total = 5, products = ''C'', email = Some (StrC ''b@x.fr'')\<rparr>]"
    by code_simp
  show "astype_str std_lib (FloatC 1023) = ''1023.0''" by code_simp
  show "pipeline std_lib float_id_input = Inr []" by code_simp
  show "pipeline std_lib float_both_input =
       Inr [\<lparr>rid = ''1023.0'', total = 15, products = ''B'', email = Some (StrC ''a@x.fr'')\<rparr>]"
    by code_simp
qed

text \<open>
  Claim C2, amended.  In the restriction of the invoices to the retained clients
  (line 209) and in the join with the client table (lines 237-241) two client numbers are
  equal when \<^verbatim>\<open>astype(str)\<close> gives the same text for both, with no trimming; there the
  integer 1023 and the text \<^verbatim>\<open>1023\<close> are equal.
\<close>

theorem client_ids_compared_as_texts:
  "(kept_invoices L retained invoices = Inr kept \<longrightarrow>
      rows kept =
        map (prepared L (amount_column (columns invoices)))
          (filter (\<lambda>r. ne_zero (r (amount_column (columns invoices)))
                     \<and> (\<exists>c \<in> set (rows retained).
                           astype_str L (r Numero_du_client) = astype_str L (c Numero_du_client)))
             (rows invoices)))
   \<and> merge_row (stringify_ids L retained) t =
       (case filter (\<lambda>c. astype_str L (c Numero_du_client) = rid t) (rows retained) of
          [] \<Rightarrow> [t\<lparr>email := Some NaN\<rparr>]
        | ms \<Rightarrow> map (\<lambda>c. t\<lparr>email := Some (c ''Email'')\<rparr>) ms)
   \<and> astype_str L (IntC 1023) = astype_str L (StrC ''1023'')"
proof (intro conjI impI)
  assume "kept_invoices L retained invoices = Inr kept"
  then show "rows kept =
        map (prepared L (amount_column (columns invoices)))
          (filter (\<lambda>r. ne_zero (r (amount_column (columns invoices)))
                     \<and> (\<exists>c \<in> set (rows retained).
                           astype_str L (r Numero_du_client) = astype_str L (c Numero_du_client)))
             (rows invoices))"
    by (auto simp: kept_invoices_eq surviving_rows_def split: if_splits)
next
  show "merge_row (stringify_ids L retained) t =
       (case filter (\<lambda>c. astype_str L (c Numero_du_client) = rid t) (rows retained) of
          [] \<Rightarrow> [t\<lparr>email := Some NaN\<rparr>]
        | ms \<Rightarrow> map (\<lambda>c. t\<lparr>email := Some (c ''Email'')\<rparr>) ms)"
    by (rule merge_row_stringified)
next
  have "str_int 1023 = ''1023''" by code_simp
  then show "astype_str L (IntC 1023) = astype_str L (StrC ''1023'')" by simp
qed

theorem client_ids_compared_as_texts_witness:
  "\<exists>kept. kept_invoices std_lib one_client text_id_invoices = Inr kept
     \<and> map (\<lambda>r. r Numero_du_client) (rows kept) = [StrC ''1023'']
     \<and> astype_str std_lib (IntC 1023) = astype_str std_lib (StrC ''1023'')"
proof -
  have "amount_column (columns text_id_invoices) \<in> set (columns text_id_invoices)"
    by code_simp
  then obtain kept where k: "kept_invoices std_lib one_client text_id_invoices = Inr kept"
    by (simp add: kept_invoices_eq)
  note T = client_ids_compared_as_texts [of std_lib one_client text_id_invoices kept]
  from T [THEN conjunct1, rule_format, OF k] have r: "rows kept =
        map (prepared std_lib (amount_column (columns text_id_invoices)))
          (filter (\<lambda>r. ne_zero (r (amount_column (columns text_id_invoices)))
                     \<and> (\<exists>c \<in> set (rows one_client).
                           astype_str std_lib (r Numero_du_client) = astype_str std_lib (c Numero_du_client)))
             (rows text_id_invoices))" .
  have e: "map (\<lambda>r. r Numero_du_client)
       (map (prepared std_lib (amount_column (columns text_id_invoices)))
          (filter (\<lambda>r. ne_zero (r (amount_column (columns text_id_invoices)))
                     \<and> (\<exists>c \<in> set (rows one_client).
                           astype_str std_lib (r Numero_du_client) = astype_str std_lib (c Numero_du_client)))
             (rows text_id_invoices))) = [StrC ''1023'']"
    by code_simp
  have 1: "map (\<lambda>r. r Numero_du_client) (rows kept) = [StrC ''1023'']"
    by (simp only: r e)
  have 2: "astype_str std_lib (IntC 1023) = astype_str std_lib (StrC ''1023'')"
    by (rule T [THEN conjunct2, THEN conjunct2])
  show ?thesis
    by (intro exI [of _ kept] conjI) (fact k, fact 1, fact 2)
qed

section \<open>Which rows each total counts\<close>











end
